theory Spec2Isabelle
  imports Main
begin

section \<open>The review framework service (app.py)\<close>

text \<open>
  A shallow embedding of the request paths of \<^verbatim>\<open>app.py\<close>: the framework store
  (\<^verbatim>\<open>load_framework_files\<close>), the selection of components and the prompt built
  inside \<^verbatim>\<open>generate_review\<close>, and the handlers \<^verbatim>\<open>create_review\<close> and
  \<^verbatim>\<open>get_file\<close>.

  Python strings are modelled as \<^typ>\<open>string\<close>. The only string operations of the code
  are concatenation and \<^verbatim>\<open>endswith(".json")\<close> with an ASCII suffix, which agree on
  code points and on UTF-8 bytes. Logging is not modelled.
\<close>

subsection \<open>Python values\<close>

text \<open>
  The outcome of a statement that sits inside a \<^verbatim>\<open>try: ... except Exception as e\<close>
  block: the value it produces, or the exception it raises, kept as \<^verbatim>\<open>str(e)\<close>.
\<close>

datatype 'a attempt = Value 'a | Exc string

text \<open>
  The outcome of awaiting the external call, which sits inside the same kind of block.
  The handler \<^verbatim>\<open>except Exception\<close> catches an exception whose class is derived from
  \<^verbatim>\<open>Exception\<close>, kept as \<^verbatim>\<open>str(e)\<close>. It does not catch the others
  (\<^verbatim>\<open>asyncio.CancelledError\<close> when the awaiting task is cancelled,
  \<^verbatim>\<open>KeyboardInterrupt\<close>, \<^verbatim>\<open>SystemExit\<close>), kept as the name of their class.
\<close>

datatype 'a awaited = Gives 'a | RaisesException string | RaisesOther string

text \<open>
  The outcome of a function: an exception that no handler catches leaves it. The modelled
  code could raise two kinds: the \<^verbatim>\<open>KeyError\<close> of a dictionary subscript, which
  carries the missing key, and an exception of the awaited call that is not derived from
  \<^verbatim>\<open>Exception\<close>, which carries the name of its class.
\<close>

datatype py_exception = KeyError string | BaseException string

datatype 'a outcome = Returns 'a | Raises py_exception

text \<open>\<^verbatim>\<open>s.endswith(suf)\<close> and \<^verbatim>\<open>s.startswith(pre)\<close>.\<close>

definition endswith :: "string \<Rightarrow> string \<Rightarrow> bool" where
  "endswith s suf \<longleftrightarrow> length suf \<le> length s \<and> drop (length s - length suf) s = suf"

definition startswith :: "string \<Rightarrow> string \<Rightarrow> bool" where
  "startswith s pre \<longleftrightarrow> take (length pre) s = pre"

text \<open>
  A Python \<^verbatim>\<open>dict\<close> with string keys keeps its keys in insertion order, and
  \<^verbatim>\<open>json.dumps\<close> writes them in that order: an association list without repeated
  keys. \<^verbatim>\<open>k in d\<close>, \<^verbatim>\<open>d[k]\<close> (which raises \<^verbatim>\<open>KeyError\<close> on a missing
  key) and \<^verbatim>\<open>d[k] = v\<close> (which overwrites in place or appends).
\<close>

type_synonym 'v dict = "(string \<times> 'v) list"

fun dict_contains :: "string \<Rightarrow> 'v dict \<Rightarrow> bool" where
  "dict_contains k [] = False"
| "dict_contains k ((k', v) # d) = (k' = k \<or> dict_contains k d)"

fun dict_getitem :: "'v dict \<Rightarrow> string \<Rightarrow> 'v outcome" where
  "dict_getitem [] k = Raises (KeyError k)"
| "dict_getitem ((k', v) # d) k = (if k' = k then Returns v else dict_getitem d k)"

fun dict_setitem :: "'v dict \<Rightarrow> string \<Rightarrow> 'v \<Rightarrow> 'v dict" where
  "dict_setitem [] k v = [(k, v)]"
| "dict_setitem ((k', v') # d) k v =
     (if k' = k then (k, v) # d else (k', v') # dict_setitem d k v)"

definition dict_keys :: "'v dict \<Rightarrow> string list" where
  "dict_keys d = map fst d"

text \<open>\<^verbatim>\<open>sep.join(parts)\<close>.\<close>

fun str_join :: "string \<Rightarrow> string list \<Rightarrow> string" where
  "str_join sep [] = []"
| "str_join sep [p] = p"
| "str_join sep (p # q # ps) = p @ sep @ str_join sep (q # ps)"

text \<open>\<^verbatim>\<open>os.path.join(a, b)\<close> of \<^verbatim>\<open>posixpath\<close>, for two arguments.\<close>

definition os_path_join :: "string \<Rightarrow> string \<Rightarrow> string" where
  "os_path_join a b =
     (if startswith b ''/'' then b
      else if a = [] \<or> endswith a ''/'' then a @ b
      else a @ ''/'' @ b)"

subsection \<open>The world a request runs in\<close>

text \<open>
  Everything the code reads from outside itself, as one snapshot per request:
  \<^item> \<open>has_anthropic\<close>: the module-level flag, true when the credential was set and the
    client was constructed;
  \<^item> \<open>messages_create\<close>: the body of the \<^verbatim>\<open>try\<close> block up to the subscript: awaiting
    \<^verbatim>\<open>client.messages.create(...)\<close> for a prompt (model, token limit, temperature and
    system text are constants of the call) raises, or gives a message, kept as the texts
    of its content blocks;
  \<^item> \<open>path_exists\<close>, \<open>listdir\<close>: \<^verbatim>\<open>os.path.exists\<close> and \<^verbatim>\<open>os.listdir\<close>;
  \<^item> \<open>open_json_load\<close>: \<^verbatim>\<open>with open(path, 'r', encoding='utf-8') as f: json.load(f)\<close>,
    which gives the parsed document or raises (unreadable file, undecodable bytes,
    malformed JSON);
  \<^item> \<open>encode_key\<close>, \<open>encode_value\<close>: what \<^verbatim>\<open>json.dumps(..., indent=2)\<close> writes for
    a key string and for a parsed document nested one level deep.
  The type \<open>'j\<close> is the type of parsed JSON documents.

  Two assumptions about the file system are built in. \<^verbatim>\<open>os.path.exists\<close> and
  \<^verbatim>\<open>os.listdir\<close> do not raise: the configured path, when it exists, is a directory
  that can be listed. And loading a file, which is synchronous, raises only exceptions
  derived from \<^verbatim>\<open>Exception\<close> (\<^verbatim>\<open>OSError\<close>, \<^verbatim>\<open>UnicodeDecodeError\<close>,
  \<^verbatim>\<open>JSONDecodeError\<close>).
\<close>

record 'j world =
  has_anthropic :: bool
  messages_create :: "string \<Rightarrow> string list awaited"
  path_exists :: "string \<Rightarrow> bool"
  listdir :: "string \<Rightarrow> string list"
  open_json_load :: "string \<Rightarrow> 'j attempt"
  encode_key :: "string \<Rightarrow> string"
  encode_value :: "'j \<Rightarrow> string"

text \<open>
  \<^verbatim>\<open>json.dumps(d, indent=2)\<close> of a dictionary: \<^verbatim>\<open>{}\<close> when it is empty, otherwise
  one \<^verbatim>\<open>key: value\<close> line per entry, indented by two spaces and separated by commas.
\<close>

definition json_dumps :: "'j world \<Rightarrow> 'j dict \<Rightarrow> string" where
  "json_dumps w d =
     (if d = [] then ''{}''
      else ''{'' @ ''\<newline>  ''
        @ str_join ('','' @ ''\<newline>  '')
            (map (\<lambda>(k, v). encode_key w k @ '': '' @ encode_value w v) d)
        @ ''\<newline>'' @ ''}'')"

subsection \<open>Requests and responses\<close>

record review_request =
  product_name :: string
  product_category :: string
  user_experience :: string
  include_components :: "string list"

record review_response =
  review :: string
  components_used :: "string list"

text \<open>
  What the HTTP layer sends for a handler: status 200 with the returned value, the status
  and detail of a raised \<^verbatim>\<open>HTTPException\<close>, or status 500 for any other exception
  that leaves the handler.
\<close>

datatype 'a body = Json 'a | Detail string | InternalServerError

datatype 'a http_response = HTTPResponse nat "'a body"

definition handler_returns :: "'a \<Rightarrow> 'a http_response" where
  "handler_returns v = HTTPResponse 200 (Json v)"

definition HTTPException :: "nat \<Rightarrow> string \<Rightarrow> 'a http_response" where
  "HTTPException status_code detail = HTTPResponse status_code (Detail detail)"

definition handler_raises :: "py_exception \<Rightarrow> 'a http_response" where
  "handler_raises e = HTTPResponse 500 InternalServerError"

subsection \<open>The framework store\<close>

definition FRAMEWORK_DIR :: string where
  "FRAMEWORK_DIR = ''NEW-SYSTEM''"

text \<open>
  The idiom \<^verbatim>\<open>if not name.endswith(".json"): name += ".json"\<close> of
  \<^verbatim>\<open>generate_review\<close> and \<^verbatim>\<open>get_file\<close>, written as the conditional expression
  \<^verbatim>\<open>c if c.endswith(".json") else c + ".json"\<close> in \<^verbatim>\<open>create_review\<close>.
\<close>

definition with_json_suffix :: "string \<Rightarrow> string" where
  "with_json_suffix name = (if \<not> endswith name ''.json'' then name @ ''.json'' else name)"

text \<open>
  \<^verbatim>\<open>load_framework_files\<close>: the loop over the directory listing, with the dictionary
  built so far, and the function around it.
\<close>

fun load_files_loop :: "'j world \<Rightarrow> string list \<Rightarrow> 'j dict \<Rightarrow> 'j dict" where
  "load_files_loop w [] framework_files = framework_files"
| "load_files_loop w (filename # rest) framework_files =
     (if endswith filename ''.json'' then
        (let file_path = os_path_join FRAMEWORK_DIR filename in
         case open_json_load w file_path of
           Value doc \<Rightarrow> load_files_loop w rest (dict_setitem framework_files filename doc)
         | Exc e \<Rightarrow> load_files_loop w rest framework_files)
      else load_files_loop w rest framework_files)"

definition load_framework_files :: "'j world \<Rightarrow> 'j dict" where
  "load_framework_files w =
     (if \<not> path_exists w FRAMEWORK_DIR then []
      else load_files_loop w (listdir w FRAMEWORK_DIR) [])"

subsection \<open>Selecting components\<close>

definition default_components :: "string list" where
  "default_components =
     [''framework-config.json'', ''review-strategy.json'', ''content-structure.json'']"

text \<open>
  The two loops of \<^verbatim>\<open>generate_review\<close> that fill \<^verbatim>\<open>components\<close>: over the default
  names, and over the requested names with the suffix added where it is missing.
\<close>

fun include_default :: "'j dict \<Rightarrow> string list \<Rightarrow> 'j dict \<Rightarrow> 'j dict outcome" where
  "include_default framework_files [] components = Returns components"
| "include_default framework_files (component # rest) components =
     (if dict_contains component framework_files then
        (case dict_getitem framework_files component of
           Raises e \<Rightarrow> Raises e
         | Returns doc \<Rightarrow>
             include_default framework_files rest (dict_setitem components component doc))
      else include_default framework_files rest components)"

fun include_requested :: "'j dict \<Rightarrow> string list \<Rightarrow> 'j dict \<Rightarrow> 'j dict outcome" where
  "include_requested framework_files [] components = Returns components"
| "include_requested framework_files (component # rest) components =
     (let component = with_json_suffix component in
      if dict_contains component framework_files then
        (case dict_getitem framework_files component of
           Raises e \<Rightarrow> Raises e
         | Returns doc \<Rightarrow>
             include_requested framework_files rest (dict_setitem components component doc))
      else include_requested framework_files rest components)"

text \<open>
  The selection as a whole (the spec's \<^verbatim>\<open>resolve\<close>): the block of
  \<^verbatim>\<open>generate_review\<close> from \<^verbatim>\<open>components = {}\<close> to the end of the \<^verbatim>\<open>else\<close> branch,
  as a function of the loaded store and the requested names.
\<close>

definition resolve :: "'j dict \<Rightarrow> string list \<Rightarrow> 'j dict outcome" where
  "resolve framework_files requested =
     (if requested = [] then include_default framework_files default_components []
      else include_requested framework_files requested [])"

subsection \<open>The prompt\<close>

definition build_prompt :: "'j world \<Rightarrow> review_request \<Rightarrow> 'j dict \<Rightarrow> string" where
  "build_prompt w request components =
     ''\<newline>''
     @ ''    You are a professional product reviewer using the Amazon Review Framework.\<newline>''
     @ ''    \<newline>''
     @ ''    Product: '' @ product_name request @ ''\<newline>''
     @ ''    Category: '' @ product_category request @ ''\<newline>''
     @ ''    \<newline>''
     @ ''    User's experience with the product:\<newline>''
     @ ''    '' @ user_experience request @ ''\<newline>''
     @ ''    \<newline>''
     @ ''    Using the Amazon Review Framework components below, generate a comprehensive, \<newline>''
     @ ''    well-structured review for this product. Follow the framework guidelines for structure,\<newline>''
     @ ''    content balance, and authenticity.\<newline>''
     @ ''    \<newline>''
     @ ''    Framework components to use:\<newline>''
     @ ''    '' @ json_dumps w components @ ''\<newline>''
     @ ''    \<newline>''
     @ ''    Generate a complete review following these framework guidelines.\<newline>''
     @ ''    ''"

subsection \<open>Generating a review\<close>

definition disabled_message :: string where
  "disabled_message =
     ''Anthropic API key not set. Please configure the ANTHROPIC_API_KEY ''
     @ ''environment variable to use review generation.''"

text \<open>
  \<^verbatim>\<open>message.content[0].text\<close>: the subscript raises \<^verbatim>\<open>IndexError\<close> on an empty
  content list.
\<close>

definition first_text :: "string list \<Rightarrow> string attempt" where
  "first_text content =
     (case content of [] \<Rightarrow> Exc ''list index out of range'' | t # _ \<Rightarrow> Value t)"

text \<open>
  The \<^verbatim>\<open>try\<close> block of \<^verbatim>\<open>generate_review\<close> and its handler: the body awaits the
  call and reads the first text; \<^verbatim>\<open>except Exception as e\<close> turns an exception derived
  from \<^verbatim>\<open>Exception\<close> into the error string, and any other exception leaves the
  function.
\<close>

definition call_claude :: "'j world \<Rightarrow> string \<Rightarrow> string outcome" where
  "call_claude w prompt =
     (case (case messages_create w prompt of
              Gives message \<Rightarrow>
                (case first_text message of
                   Value text \<Rightarrow> Gives text
                 | Exc e \<Rightarrow> RaisesException e)
            | RaisesException e \<Rightarrow> RaisesException e
            | RaisesOther c \<Rightarrow> RaisesOther c) of
        Gives text \<Rightarrow> Returns text
      | RaisesException e \<Rightarrow> Returns (''Error generating review: '' @ e)
      | RaisesOther c \<Rightarrow> Raises (BaseException c))"

text \<open>
  \<^verbatim>\<open>generate_review\<close>. Beside its outcome the model returns the prompts that were sent
  to the external API, in order.
\<close>

definition generate_review :: "'j world \<Rightarrow> review_request \<Rightarrow> string outcome \<times> string list" where
  "generate_review w request =
     (if \<not> has_anthropic w then (Returns disabled_message, [])
      else
        let framework_files = load_framework_files w in
        case resolve framework_files (include_components request) of
          Raises e \<Rightarrow> (Raises e, [])
        | Returns components \<Rightarrow>
            let prompt = build_prompt w request components in
            (call_claude w prompt, [prompt]))"

subsection \<open>The handlers\<close>

text \<open>\<^verbatim>\<open>POST /generate-review\<close>.\<close>

definition create_review :: "'j world \<Rightarrow> review_request \<Rightarrow> review_response http_response" where
  "create_review w request =
     (case fst (generate_review w request) of
        Raises e \<Rightarrow> handler_raises e
      | Returns review_text \<Rightarrow>
          let components_used =
            (if include_components request = [] then
               [''framework-config.json'', ''review-strategy.json'', ''content-structure.json'']
             else
               map (\<lambda>c. if endswith c ''.json'' then c else c @ ''.json'')
                 (include_components request))
          in handler_returns \<lparr>review = review_text, components_used = components_used\<rparr>)"

text \<open>\<^verbatim>\<open>GET /files/{filename}\<close>.\<close>

definition get_file :: "'j world \<Rightarrow> string \<Rightarrow> 'j http_response" where
  "get_file w filename0 =
     (let filename = with_json_suffix filename0;
          framework_files = load_framework_files w
      in
      if \<not> dict_contains filename framework_files then
        (let file_path = os_path_join FRAMEWORK_DIR filename;
             not_found = HTTPException 404
               (''File '' @ filename @ '' not found in '' @ FRAMEWORK_DIR)
         in
         if path_exists w file_path then
           (case open_json_load w file_path of
              Value doc \<Rightarrow> handler_returns doc
            | Exc e \<Rightarrow> not_found)
         else not_found)
      else
        (case dict_getitem framework_files filename of
           Raises e \<Rightarrow> handler_raises e
         | Returns doc \<Rightarrow> handler_returns doc))"

subsection \<open>Two requests against a small deployment\<close>

text \<open>
  A deployment with the credential set and an API that answers. Its directory holds one
  well-formed framework file, one file that does not parse and one file that is not JSON
  by name; documents are numbered rather than spelled out.
\<close>

definition live_world :: "nat world" where
  "live_world =
     \<lparr>has_anthropic = True,
      messages_create = (\<lambda>prompt. Gives [''A sturdy, well-made widget.'']),
      path_exists = (\<lambda>path. path \<in> set [''NEW-SYSTEM'', ''NEW-SYSTEM/framework-config.json'',
                                          ''NEW-SYSTEM/broken.json'', ''NEW-SYSTEM/notes.txt'']),
      listdir = (\<lambda>path. [''framework-config.json'', ''broken.json'', ''notes.txt'']),
      open_json_load = (\<lambda>path. if path = ''NEW-SYSTEM/framework-config.json'' then Value 7
                               else Exc ''Expecting value: line 1 column 1 (char 0)''),
      encode_key = (\<lambda>k. [CHR 0x22] @ k @ [CHR 0x22]),
      encode_value = (\<lambda>v. if v = 7 then ''7'' else ''0'')\<rparr>"

definition widget_request :: "string list \<Rightarrow> review_request" where
  "widget_request names =
     \<lparr>product_name = ''Widget'', product_category = ''Tools'',
      user_experience = ''Works great'', include_components = names\<rparr>"


section \<open>Properties\<close>

subsection \<open>Dictionaries and suffixes\<close>

lemmas eval_defs = live_world_def widget_request_def load_framework_files_def FRAMEWORK_DIR_def
  endswith_def startswith_def os_path_join_def with_json_suffix_def resolve_def
  default_components_def generate_review_def create_review_def get_file_def
  handler_returns_def HTTPException_def handler_raises_def call_claude_def first_text_def
  dict_keys_def

lemma dict_contains_iff: "dict_contains k d \<longleftrightarrow> map_of d k \<noteq> None"
  by (induction d) auto

lemma dict_getitem_map_of:
  "dict_getitem d k = (case map_of d k of None \<Rightarrow> Raises (KeyError k) | Some v \<Rightarrow> Returns v)"
  by (induction d) auto

lemma map_of_dict_setitem: "map_of (dict_setitem d k v) = (map_of d)(k \<mapsto> v)"
  by (induction d) auto

lemma keys_dict_setitem: "fst ` set (dict_setitem d k v) = insert k (fst ` set d)"
  by (simp add: map_of_dict_setitem flip: dom_map_of_conv_image_fst)

lemma distinct_dict_setitem:
  "distinct (map fst d) \<Longrightarrow> distinct (map fst (dict_setitem d k v))"
  by (induction d) (auto simp: keys_dict_setitem)

lemma endswith_append [simp]: "endswith (x @ suf) suf"
  by (simp add: endswith_def)

subsection \<open>The framework store\<close>

lemma distinct_load_files_loop:
  "distinct (map fst acc) \<Longrightarrow> distinct (map fst (load_files_loop w names acc))"
  by (induction names arbitrary: acc)
     (auto simp: distinct_dict_setitem Let_def split: attempt.splits)

lemma map_of_load_files_loop:
  "map_of (load_files_loop w names acc) name =
     (case open_json_load w (os_path_join FRAMEWORK_DIR name) of
        Value doc \<Rightarrow>
          if name \<in> set names \<and> endswith name ''.json'' then Some doc else map_of acc name
      | Exc e \<Rightarrow> map_of acc name)"
  by (induction names arbitrary: acc)
     (auto simp: map_of_dict_setitem Let_def split: attempt.splits)

lemma set_load_files_loop:
  "set (load_files_loop w names []) =
     {(name, doc). name \<in> set names \<and> endswith name ''.json'' \<and>
        open_json_load w (os_path_join FRAMEWORK_DIR name) = Value doc}"
proof -
  have d: "distinct (map fst (load_files_loop w names []))"
    by (simp add: distinct_load_files_loop)
  show ?thesis
    by (auto simp: map_of_eq_Some_iff [OF d, symmetric] map_of_load_files_loop
        split: attempt.splits if_splits)
qed

text \<open>
  C4. \<^verbatim>\<open>load_framework_files\<close> returns the empty dictionary when the configured
  directory does not exist. Otherwise its entries are exactly the pairs of a listed name
  ending in \<^verbatim>\<open>.json\<close> and the document that file parses to, each name once: a file
  that fails to load contributes nothing and leaves the other entries as they are.
\<close>

theorem load_framework_files_entries:
  "(\<not> path_exists w FRAMEWORK_DIR \<longrightarrow> load_framework_files w = []) \<and>
   (path_exists w FRAMEWORK_DIR \<longrightarrow>
      distinct (dict_keys (load_framework_files w)) \<and>
      set (load_framework_files w) =
        {(name, doc). name \<in> set (listdir w FRAMEWORK_DIR) \<and> endswith name ''.json'' \<and>
           open_json_load w (os_path_join FRAMEWORK_DIR name) = Value doc})"
  by (simp add: load_framework_files_def dict_keys_def distinct_load_files_loop
      set_load_files_loop)


theorem load_framework_files_entries_witness:
  "path_exists live_world FRAMEWORK_DIR \<and>
   load_framework_files live_world = [(''framework-config.json'', 7)] \<and>
   \<not> path_exists (live_world\<lparr>path_exists := \<lambda>path. False\<rparr>) FRAMEWORK_DIR \<and>
   load_framework_files (live_world\<lparr>path_exists := \<lambda>path. False\<rparr>) = []"
proof -
  have here: "path_exists live_world FRAMEWORK_DIR"
    by (simp add: live_world_def FRAMEWORK_DIR_def)
  have gone: "\<not> path_exists (live_world\<lparr>path_exists := \<lambda>path. False\<rparr>) FRAMEWORK_DIR"
    by simp
  have val: "load_framework_files live_world = [(''framework-config.json'', 7)]"
    by (simp add: eval_defs)
  have "load_framework_files (live_world\<lparr>path_exists := \<lambda>path. False\<rparr>) = []"
    using gone load_framework_files_entries [of "live_world\<lparr>path_exists := \<lambda>path. False\<rparr>"]
    by blast
  moreover have "set [(''framework-config.json'', 7::nat)] =
      {(name, doc). name \<in> set (listdir live_world FRAMEWORK_DIR) \<and> endswith name ''.json'' \<and>
           open_json_load live_world (os_path_join FRAMEWORK_DIR name) = Value doc}"
    using here load_framework_files_entries [of live_world] unfolding val by blast
  ultimately show ?thesis using here gone val by simp
qed

subsection \<open>Selecting components\<close>




lemma include_requested_unknown:
  "\<forall>c\<in>set requested. \<not> dict_contains (with_json_suffix c) store \<Longrightarrow>
   include_requested store requested components = Returns components"
  by (induction requested) (auto simp: Let_def)

text \<open>
  C6. Resolving the empty request returns, and never raises: the result holds the default
  names \<^verbatim>\<open>framework-config.json\<close>, \<^verbatim>\<open>review-strategy.json\<close> and
  \<^verbatim>\<open>content-structure.json\<close> that the store contains, in that order, each with the
  store's document, and nothing else. The result is empty when the store has none of them.
\<close>

theorem resolve_empty_request:
  "\<exists>components. resolve store [] = Returns components \<and>
     dict_keys components =
       filter (\<lambda>c. dict_contains c store)
         [''framework-config.json'', ''review-strategy.json'', ''content-structure.json''] \<and>
     (\<forall>c. map_of components c =
        (if c \<in> {''framework-config.json'', ''review-strategy.json'', ''content-structure.json''}
         then map_of store c else None))"
  by (auto simp: resolve_def default_components_def dict_contains_iff dict_getitem_map_of
      dict_keys_def)

theorem resolve_empty_request_witness:
  "resolve (load_framework_files live_world) [] = Returns [(''framework-config.json'', 7)] \<and>
   resolve ([] :: nat dict) [] = Returns []"
  using resolve_empty_request [of "load_framework_files live_world"]
    resolve_empty_request [of "[] :: nat dict"]
  by (simp add: eval_defs)

text \<open>
  C5 (as amended). For a name \<open>x\<close> that does not itself end in \<^verbatim>\<open>.json\<close>, and every
  store, resolving \<^verbatim>\<open>[x]\<close> and resolving \<^verbatim>\<open>[x + ".json"]\<close> give the same result.
\<close>

theorem resolve_suffix_equivalent:
  "\<not> endswith x ''.json'' \<Longrightarrow> resolve store [x] = resolve store [x @ ''.json'']"
  by (simp add: resolve_def with_json_suffix_def)

theorem resolve_suffix_equivalent_witness:
  "\<not> endswith ''framework-config'' ''.json'' \<and>
   resolve (load_framework_files live_world) [''framework-config''] =
     Returns [(''framework-config.json'', 7)] \<and>
   resolve (load_framework_files live_world) [''framework-config'' @ ''.json''] =
     Returns [(''framework-config.json'', 7)]"
  using resolve_suffix_equivalent [of "''framework-config''" "load_framework_files live_world"]
  by (simp add: eval_defs)

text \<open>
  C5 as stated fails for a name that already carries the suffix: with
  \<^verbatim>\<open>framework-config.json\<close> in the store, the request \<^verbatim>\<open>["framework-config.json"]\<close>
  selects that file, and \<^verbatim>\<open>["framework-config.json.json"]\<close> selects nothing.
\<close>

theorem resolve_suffix_equivalent_counterexample:
  "resolve (load_framework_files live_world) [''framework-config.json''] =
     Returns [(''framework-config.json'', 7)] \<and>
   resolve (load_framework_files live_world) [''framework-config.json'' @ ''.json''] =
     Returns [] \<and>
   resolve (load_framework_files live_world) [''framework-config.json''] \<noteq>
     resolve (load_framework_files live_world) [''framework-config.json'' @ ''.json'']"
  by (simp add: eval_defs)

text \<open>
  C7. When the request is not empty and none of its names, with the suffix added where
  missing, is in the store, resolving returns the empty dictionary and does not raise. The
  prompt built from the empty dictionary is the template with the three texts of the
  request and \<^verbatim>\<open>{}\<close> in the place of the components, with no document and no key
  in it; and \<^verbatim>\<open>generate_review\<close> goes on to build that prompt and send it.
\<close>

theorem resolve_unknown_names:
  assumes "requested \<noteq> []"
    and "\<forall>c\<in>set requested. \<not> dict_contains (with_json_suffix c) store"
  shows "resolve store requested = Returns [] \<and>
     build_prompt w request [] =
       ''\<newline>    You are a professional product reviewer using the Amazon Review Framework.\<newline>    \<newline>    Product: ''
       @ product_name request
       @ ''\<newline>    Category: ''
       @ product_category request
       @ ''\<newline>    \<newline>    User's experience with the product:\<newline>    ''
       @ user_experience request
       @ (''\<newline>    \<newline>    Using the Amazon Review Framework components below, generate a comprehensive, \<newline>''
          @ ''    well-structured review for this product. Follow the framework guidelines for structure,\<newline>''
          @ ''    content balance, and authenticity.\<newline>    \<newline>    Framework components to use:\<newline>    '')
       @ ''{}''
       @ ''\<newline>    \<newline>    Generate a complete review following these framework guidelines.\<newline>    '' \<and>
     (has_anthropic w \<and> load_framework_files w = store \<and>
      include_components request = requested \<longrightarrow>
        generate_review w request =
          (call_claude w (build_prompt w request []), [build_prompt w request []]))"
proof -
  have sel: "resolve store requested = Returns []"
    using assms by (simp add: resolve_def include_requested_unknown)
  have shape: "build_prompt w request [] =
       ''\<newline>    You are a professional product reviewer using the Amazon Review Framework.\<newline>    \<newline>    Product: ''
       @ product_name request
       @ ''\<newline>    Category: ''
       @ product_category request
       @ ''\<newline>    \<newline>    User's experience with the product:\<newline>    ''
       @ user_experience request
       @ (''\<newline>    \<newline>    Using the Amazon Review Framework components below, generate a comprehensive, \<newline>''
          @ ''    well-structured review for this product. Follow the framework guidelines for structure,\<newline>''
          @ ''    content balance, and authenticity.\<newline>    \<newline>    Framework components to use:\<newline>    '')
       @ ''{}''
       @ ''\<newline>    \<newline>    Generate a complete review following these framework guidelines.\<newline>    ''"
    by (simp add: build_prompt_def json_dumps_def)
  have sent: "generate_review w request =
      (call_claude w (build_prompt w request []), [build_prompt w request []])"
    if "has_anthropic w" "load_framework_files w = store" "include_components request = requested"
    using that sel by (simp add: generate_review_def Let_def)
  from sel shape sent show ?thesis by blast
qed

theorem resolve_unknown_names_witness:
  "[''nonexistent''] \<noteq> [] \<and>
   \<not> dict_contains (with_json_suffix ''nonexistent'') (load_framework_files live_world) \<and>
   has_anthropic live_world \<and>
   include_components (widget_request [''nonexistent'']) = [''nonexistent''] \<and>
   resolve (load_framework_files live_world) [''nonexistent''] = Returns [] \<and>
   generate_review live_world (widget_request [''nonexistent'']) =
     (Returns ''A sturdy, well-made widget.'',
      [''\<newline>    You are a professional product reviewer using the Amazon Review Framework.\<newline>    \<newline>    Product: Widget''
       @ ''\<newline>    Category: Tools''
       @ ''\<newline>    \<newline>    User's experience with the product:\<newline>    Works great''
       @ ''\<newline>    \<newline>    Using the Amazon Review Framework components below, generate a comprehensive, \<newline>''
       @ ''    well-structured review for this product. Follow the framework guidelines for structure,\<newline>''
       @ ''    content balance, and authenticity.\<newline>    \<newline>    Framework components to use:\<newline>    {}''
       @ ''\<newline>    \<newline>    Generate a complete review following these framework guidelines.\<newline>    ''])"
proof -
  have store: "load_framework_files live_world = [(''framework-config.json'', 7)]"
    by (simp add: eval_defs)
  have unknown: "\<forall>c\<in>set [''nonexistent''].
      \<not> dict_contains (with_json_suffix c) (load_framework_files live_world)"
    by (simp add: store with_json_suffix_def endswith_def)
  have req: "include_components (widget_request [''nonexistent'']) = [''nonexistent'']"
    by (simp add: widget_request_def)
  have live: "has_anthropic live_world"
    by (simp add: live_world_def)
  have answer: "call_claude live_world p = Returns ''A sturdy, well-made widget.''" for p
    by (simp add: call_claude_def first_text_def live_world_def)
  have fields: "product_name (widget_request [''nonexistent'']) = ''Widget''"
    "product_category (widget_request [''nonexistent'']) = ''Tools''"
    "user_experience (widget_request [''nonexistent'']) = ''Works great''"
    by (simp_all add: widget_request_def)
  note inst = resolve_unknown_names [OF _ unknown, of live_world "widget_request [''nonexistent'']"]
  have sel: "resolve (load_framework_files live_world) [''nonexistent''] = Returns []"
    using inst by simp
  have sent: "generate_review live_world (widget_request [''nonexistent'']) =
      (Returns ''A sturdy, well-made widget.'',
       [build_prompt live_world (widget_request [''nonexistent'']) []])"
    using inst live req answer by simp
  have shape: "build_prompt live_world (widget_request [''nonexistent'']) [] =
       ''\<newline>    You are a professional product reviewer using the Amazon Review Framework.\<newline>    \<newline>    Product: Widget''
       @ ''\<newline>    Category: Tools''
       @ ''\<newline>    \<newline>    User's experience with the product:\<newline>    Works great''
       @ ''\<newline>    \<newline>    Using the Amazon Review Framework components below, generate a comprehensive, \<newline>''
       @ ''    well-structured review for this product. Follow the framework guidelines for structure,\<newline>''
       @ ''    content balance, and authenticity.\<newline>    \<newline>    Framework components to use:\<newline>    {}''
       @ ''\<newline>    \<newline>    Generate a complete review following these framework guidelines.\<newline>    ''"
    using inst by (simp add: fields)
  from unknown live req sel sent shape show ?thesis by simp
qed

subsection \<open>Generating a review\<close>

text \<open>
  C2. Without the credential \<^verbatim>\<open>generate_review\<close> returns the fixed message, sends
  nothing to the external API and does not raise; and \<^verbatim>\<open>POST /generate-review\<close> with
  an empty \<^verbatim>\<open>include_components\<close> then answers with status 200, that message as the
  review and the three default names as \<^verbatim>\<open>components_used\<close>.
\<close>

theorem generate_review_disabled:
  "\<not> has_anthropic w \<Longrightarrow>
     generate_review w request = (Returns disabled_message, []) \<and>
     (include_components request = [] \<longrightarrow>
        create_review w request =
          HTTPResponse 200
            (Json \<lparr>review = disabled_message,
                   components_used = [''framework-config.json'', ''review-strategy.json'',
                                      ''content-structure.json'']\<rparr>))"
  by (simp add: generate_review_def create_review_def handler_returns_def)

theorem generate_review_disabled_witness:
  "\<not> has_anthropic (live_world\<lparr>has_anthropic := False\<rparr>) \<and>
   include_components (widget_request []) = [] \<and>
   generate_review (live_world\<lparr>has_anthropic := False\<rparr>) (widget_request []) =
     (Returns (''Anthropic API key not set. Please configure the ANTHROPIC_API_KEY ''
               @ ''environment variable to use review generation.''), []) \<and>
   create_review (live_world\<lparr>has_anthropic := False\<rparr>) (widget_request []) =
     HTTPResponse 200
       (Json \<lparr>review = ''Anthropic API key not set. Please configure the ANTHROPIC_API_KEY ''
                       @ ''environment variable to use review generation.'',
              components_used = [''framework-config.json'', ''review-strategy.json'',
                                 ''content-structure.json'']\<rparr>)"
  using generate_review_disabled [of "live_world\<lparr>has_anthropic := False\<rparr>" "widget_request []"]
  by (simp add: widget_request_def disabled_message_def)




text \<open>
  C1 fails on the code. \<^verbatim>\<open>create_review\<close> recomputes \<^verbatim>\<open>components_used\<close> from the
  request alone: for the request \<^verbatim>\<open>["nonexistent"]\<close> against a store without
  \<^verbatim>\<open>nonexistent.json\<close>, the selection is empty and the prompt is built from the empty
  dictionary, yet the response lists \<^verbatim>\<open>nonexistent.json\<close> as used.
\<close>

theorem create_review_lists_skipped_component:
  "resolve (load_framework_files live_world) [''nonexistent''] = Returns [] \<and>
   snd (generate_review live_world (widget_request [''nonexistent''])) =
     [build_prompt live_world (widget_request [''nonexistent'']) []] \<and>
   create_review live_world (widget_request [''nonexistent'']) =
     HTTPResponse 200
       (Json \<lparr>review = ''A sturdy, well-made widget.'',
              components_used = [''nonexistent.json'']\<rparr>)"
  by (simp add: eval_defs)

subsection \<open>The prompt\<close>

text \<open>
  C8. The prompt holds the product name, the category and the experience text unchanged,
  followed by the serialised components, in that order between the fixed pieces of the
  template; and the empty dictionary of components is serialised as \<^verbatim>\<open>{}\<close>.
\<close>

theorem build_prompt_embeds_fields:
  "build_prompt w request components =
     ''\<newline>    You are a professional product reviewer using the Amazon Review Framework.\<newline>    \<newline>    Product: ''
     @ product_name request
     @ ''\<newline>    Category: ''
     @ product_category request
     @ ''\<newline>    \<newline>    User's experience with the product:\<newline>    ''
     @ user_experience request
     @ (''\<newline>    \<newline>    Using the Amazon Review Framework components below, generate a comprehensive, \<newline>''
        @ ''    well-structured review for this product. Follow the framework guidelines for structure,\<newline>''
        @ ''    content balance, and authenticity.\<newline>    \<newline>    Framework components to use:\<newline>    '')
     @ json_dumps w components
     @ ''\<newline>    \<newline>    Generate a complete review following these framework guidelines.\<newline>    ''
   \<and> json_dumps w [] = ''{}''"
  by (simp add: build_prompt_def json_dumps_def)

theorem build_prompt_embeds_fields_witness:
  "build_prompt live_world (widget_request []) [] =
     ''\<newline>    You are a professional product reviewer using the Amazon Review Framework.\<newline>    \<newline>    Product: Widget''
     @ ''\<newline>    Category: Tools''
     @ ''\<newline>    \<newline>    User's experience with the product:\<newline>    Works great''
     @ ''\<newline>    \<newline>    Using the Amazon Review Framework components below, generate a comprehensive, \<newline>''
     @ ''    well-structured review for this product. Follow the framework guidelines for structure,\<newline>''
     @ ''    content balance, and authenticity.\<newline>    \<newline>    Framework components to use:\<newline>    {}''
     @ ''\<newline>    \<newline>    Generate a complete review following these framework guidelines.\<newline>    ''"
  using build_prompt_embeds_fields [of live_world "widget_request []" "[]"]
  by (simp add: widget_request_def)

subsection \<open>Fetching one file\<close>

text \<open>
  C9. \<^verbatim>\<open>GET /files/{filename}\<close> works on the name with \<^verbatim>\<open>.json\<close> appended when it
  is missing. It answers 404 with the detail \<^verbatim>\<open>File {filename} not found in {dir}\<close>,
  for that name and the configured directory, exactly when the name is not in the store and
  the direct path does not give a parsed document either (the path does not exist, or
  loading it fails).
\<close>

theorem get_file_not_found_iff:
  "(get_file w filename =
      HTTPResponse 404
        (Detail (''File '' @ with_json_suffix filename @ '' not found in '' @ FRAMEWORK_DIR))
    \<longleftrightarrow>
      \<not> dict_contains (with_json_suffix filename) (load_framework_files w) \<and>
      \<not> (path_exists w (os_path_join FRAMEWORK_DIR (with_json_suffix filename)) \<and>
         (\<exists>doc. open_json_load w (os_path_join FRAMEWORK_DIR (with_json_suffix filename))
                 = Value doc)))
   \<and> with_json_suffix filename =
       (if endswith filename ''.json'' then filename else filename @ ''.json'')"
  by (auto simp: get_file_def Let_def HTTPException_def handler_returns_def handler_raises_def
      dict_contains_iff dict_getitem_map_of with_json_suffix_def split: attempt.splits)

theorem get_file_not_found_iff_witness:
  "get_file live_world ''missing'' =
     HTTPResponse 404 (Detail ''File missing.json not found in NEW-SYSTEM'') \<and>
   \<not> dict_contains ''missing.json'' (load_framework_files live_world) \<and>
   \<not> path_exists live_world ''NEW-SYSTEM/missing.json'' \<and>
   get_file live_world ''framework-config'' = HTTPResponse 200 (Json 7) \<and>
   dict_contains ''framework-config.json'' (load_framework_files live_world)"
  using get_file_not_found_iff [of live_world "''missing''"]
    get_file_not_found_iff [of live_world "''framework-config''"]
  by (simp add: eval_defs)

text \<open>
  C10. When the name is not in the loaded store, its direct path exists and loading that
  path raises, \<^verbatim>\<open>GET /files/{filename}\<close> answers with the same 404: the exception is
  caught and reported as not found.
\<close>

theorem get_file_unparseable_not_found:
  assumes "\<not> dict_contains (with_json_suffix filename) (load_framework_files w)"
    and "path_exists w (os_path_join FRAMEWORK_DIR (with_json_suffix filename))"
    and "open_json_load w (os_path_join FRAMEWORK_DIR (with_json_suffix filename)) = Exc e"
  shows "get_file w filename =
      HTTPResponse 404
        (Detail (''File '' @ with_json_suffix filename @ '' not found in '' @ FRAMEWORK_DIR))"
  using assms by (simp add: get_file_def Let_def HTTPException_def)

theorem get_file_unparseable_not_found_witness:
  "\<not> dict_contains ''broken.json'' (load_framework_files live_world) \<and>
   path_exists live_world ''NEW-SYSTEM/broken.json'' \<and>
   open_json_load live_world ''NEW-SYSTEM/broken.json'' =
     Exc ''Expecting value: line 1 column 1 (char 0)'' \<and>
   get_file live_world ''broken'' =
     HTTPResponse 404 (Detail ''File broken.json not found in NEW-SYSTEM'')"
proof -
  have name: "with_json_suffix ''broken'' = ''broken.json''"
    by (simp add: with_json_suffix_def endswith_def)
  have path: "os_path_join FRAMEWORK_DIR ''broken.json'' = ''NEW-SYSTEM/broken.json''"
    by (simp add: os_path_join_def FRAMEWORK_DIR_def startswith_def endswith_def)
  have absent: "\<not> dict_contains ''broken.json'' (load_framework_files live_world)"
    by (simp add: eval_defs)
  have there: "path_exists live_world ''NEW-SYSTEM/broken.json''"
    by (simp add: live_world_def)
  have fails: "open_json_load live_world ''NEW-SYSTEM/broken.json'' =
      Exc ''Expecting value: line 1 column 1 (char 0)''"
    by (simp add: live_world_def)
  from get_file_unparseable_not_found [of "''broken''" live_world, unfolded name path,
      OF absent there fails]
  show ?thesis using absent there fails by (simp add: FRAMEWORK_DIR_def)
qed

end
